theory Spec2Isabelle
  imports
    Complex_Main
    "HOL-Library.Char_ord"
    "HOL-Library.List_Lexorder"
    "HOL-Library.Sublist"
    "HOL-Library.AList"
begin

section \<open>Text\<close>

text \<open>
  A Python \<open>str\<close> is modelled as a \<open>string\<close>, one \<open>char\<close> per code point (so the
  model covers text of code points below 256, all of which UTF-8 can encode; a
  \<open>str\<close> with a lone surrogate is outside it). Encoding to and decoding from UTF-8
  is the identity on such text, and the bytes of a file are taken as the text they
  decode to. The \<open>message\<close> and \<open>content\<close> fields of a JSON request body are taken as
  text, an absent field being \<open>None\<close>; the \<open>prompt\<close> field, which is stored as it
  comes, is any JSON value.
\<close>

datatype json =
    JNull
  | JBool bool
  | JNum int
  | JStr string
  | JArr "json list"
  | JObj "(string \<times> json) list"

abbreviation LF :: char where "LF \<equiv> CHR 0x0A"
abbreviation CR :: char where "CR \<equiv> CHR 0x0D"

text \<open>The code points below 256 for which \<open>str.isspace\<close> holds; \<open>str.strip()\<close> removes them.\<close>

definition isspace :: "char \<Rightarrow> bool" where
  "isspace c \<longleftrightarrow> c \<in> set [CHR 0x09, CHR 0x0A, CHR 0x0B, CHR 0x0C, CHR 0x0D,
     CHR 0x1C, CHR 0x1D, CHR 0x1E, CHR 0x1F, CHR 0x20, CHR 0x85, CHR 0xA0]"

definition strip :: "string \<Rightarrow> string" where
  "strip s = rev (dropWhile isspace (rev (dropWhile isspace s)))"

text \<open>\<open>s.rstrip(chars)\<close>\<close>

definition rstrip :: "string \<Rightarrow> string \<Rightarrow> string" where
  "rstrip chars s = rev (dropWhile (\<lambda>c. c \<in> set chars) (rev s))"

text \<open>\<open>sep.join(parts)\<close>\<close>

fun join :: "string \<Rightarrow> string list \<Rightarrow> string" where
  "join sep [] = []"
| "join sep [x] = x"
| "join sep (x # y # ys) = x @ sep @ join sep (y # ys)"

text \<open>\<open>str(n)\<close> for a non-negative integer.\<close>

definition digit :: "nat \<Rightarrow> char" where
  "digit d = ''0123456789'' ! d"

fun str_nat :: "nat \<Rightarrow> string" where
  "str_nat n = (if n < 10 then [digit n] else str_nat (n div 10) @ [digit (n mod 10)])"

declare str_nat.simps [simp del]

text \<open>
  Text-mode file access. Reading with the default \<open>newline=None\<close> turns \<open>\r\n\<close> and a
  lone \<open>\r\<close> into \<open>\n\<close>; the flag of \<open>unl\<close> says that the previous character was a
  \<open>\r\<close>. Writing turns each \<open>\n\<close> into \<open>os.linesep\<close>.
\<close>

fun unl :: "bool \<Rightarrow> string \<Rightarrow> string" where
  "unl prev_cr [] = []"
| "unl prev_cr (c # cs) =
     (if c = CR then LF # unl True cs
      else if c = LF then (if prev_cr then unl False cs else LF # unl False cs)
      else c # unl False cs)"

definition universal_newlines :: "string \<Rightarrow> string" where
  "universal_newlines s = unl False s"

datatype platform = Posix | Windows

fun linesep :: "platform \<Rightarrow> string" where
  "linesep Posix = [LF]"
| "linesep Windows = [CR, LF]"

definition translate_out :: "platform \<Rightarrow> string \<Rightarrow> string" where
  "translate_out os s = concat (map (\<lambda>c. if c = LF then linesep os else [c]) s)"

text \<open>Iterating over a file opened in text mode yields one item per line.\<close>

definition count_lines :: "string \<Rightarrow> nat" where
  "count_lines s =
     (let t = universal_newlines s
      in length (filter (\<lambda>c. c = LF) t) + (if t \<noteq> [] \<and> last t \<noteq> LF then 1 else 0))"

section \<open>llm.py\<close>

record message =
  role :: string
  content :: string

record config =
  AZURE_ENDPOINT :: string
  AZURE_API_KEY :: string
  AZURE_MODEL :: string
  AZURE_API_VERSION :: string

record payload =
  model :: string
  messages :: "message list"
  max_tokens :: nat
  temperature :: rat

record llm_request =
  url :: string
  authorization :: string
  json :: payload

text \<open>The system message of \<open>call_llm\<close>.\<close>

definition knowledge_block :: "string \<Rightarrow> string" where
  "knowledge_block knowledge_context =
     ''=== KNOWLEDGE BASE ==='' @ [LF] @
     ''Use this information to answer questions. If the answer isn't here, say so.'' @ [LF, LF] @
     strip knowledge_context @ [LF] @
     ''=== END KNOWLEDGE BASE ===''"

definition full_system :: "string \<Rightarrow> string \<Rightarrow> string" where
  "full_system system_prompt knowledge_context =
     (let system_parts = [];
          system_parts = (if strip system_prompt \<noteq> [] then system_parts @ [strip system_prompt]
                          else system_parts);
          system_parts = (if strip knowledge_context \<noteq> []
                          then system_parts @ [knowledge_block knowledge_context]
                          else system_parts)
      in if system_parts \<noteq> [] then join [LF, LF] system_parts
         else ''You are a helpful assistant.'')"

definition build_request ::
  "config \<Rightarrow> message list \<Rightarrow> string \<Rightarrow> string \<Rightarrow> nat \<Rightarrow> rat \<Rightarrow> llm_request" where
  "build_request cfg msgs system_prompt knowledge_context max_tok temp =
     \<lparr>url = rstrip ''/'' (AZURE_ENDPOINT cfg) @ ''/models/chat/completions?api-version=''
              @ AZURE_API_VERSION cfg,
      authorization = ''Bearer '' @ AZURE_API_KEY cfg,
      json = \<lparr>model = AZURE_MODEL cfg,
              messages = \<lparr>role = ''system'',
                           content = full_system system_prompt knowledge_context\<rparr> # msgs,
              max_tokens = max_tok,
              temperature = temp\<rparr>\<rparr>"

text \<open>
  What the remote exchange can do. The body of a response either is not JSON (with the
  text of the decoding error) or is JSON: then it has a \<open>json.dumps\<close> rendering, and
  \<open>["choices"][0]["message"]["content"]\<close> is either the text of the lookup error or the
  content. \<open>requests.post\<close> either raises (the text of the exception and the response
  attached to it, if any) or answers with a status code, the text of the error
  \<open>raise_for_status\<close> has for that status, and a body.
\<close>

datatype body = NotJson string | Json string "string + string"

datatype post_result =
    PostRaised string "(nat \<times> body) option"
  | Answered nat string body

text \<open>The \<open>try\<close> block: \<open>Inl\<close> is the exception caught (its text, its response).\<close>

fun try_block :: "post_result \<Rightarrow> (string \<times> (nat \<times> body) option) + string" where
  "try_block (PostRaised e resp) = Inl (e, resp)"
| "try_block (Answered status_code e b) =
     (if 400 \<le> status_code \<and> status_code < 600 then Inl (e, Some (status_code, b))
      else case b of
             NotJson d \<Rightarrow> Inl (d, None)
           | Json dumped (Inl d) \<Rightarrow> Inl (d, None)
           | Json dumped (Inr c) \<Rightarrow> Inr c)"

text \<open>The \<open>except\<close> block.\<close>

fun error_msg :: "string \<times> (nat \<times> body) option \<Rightarrow> string" where
  "error_msg (e, None) = e"
| "error_msg (e, Some (status_code, Json dumped c)) = e @ '' | '' @ dumped"
| "error_msg (e, Some (status_code, NotJson d)) = e @ '' | Status '' @ str_nat status_code"

text \<open>
  \<open>call_llm\<close>. Its first statement, \<open>system_prompt.strip()\<close>, stands before the
  \<open>try\<close> and raises \<open>AttributeError\<close> on a value that is not a \<open>str\<close>: \<open>Inl\<close> is
  the exception that leaves \<open>call_llm\<close>, \<open>Inr\<close> the text it returns. \<open>llm_requests\<close>
  is what it posts to the remote endpoint on the way.
\<close>

definition call_llm ::
  "config \<Rightarrow> (llm_request \<Rightarrow> post_result) \<Rightarrow> message list \<Rightarrow> json \<Rightarrow> string \<Rightarrow> nat \<Rightarrow> rat
     \<Rightarrow> string + string" where
  "call_llm cfg post msgs system_prompt knowledge_context max_tok temp =
     (case system_prompt of
        JStr p \<Rightarrow>
          Inr (case try_block (post (build_request cfg msgs p knowledge_context max_tok temp)) of
                 Inr c \<Rightarrow> c
               | Inl e \<Rightarrow> ''Error connecting to AI service. ('' @ error_msg e @ '')'')
      | _ \<Rightarrow> Inl ''AttributeError'')"

definition llm_requests ::
  "config \<Rightarrow> message list \<Rightarrow> json \<Rightarrow> string \<Rightarrow> nat \<Rightarrow> rat \<Rightarrow> llm_request list" where
  "llm_requests cfg msgs system_prompt knowledge_context max_tok temp =
     (case system_prompt of
        JStr p \<Rightarrow> [build_request cfg msgs p knowledge_context max_tok temp]
      | _ \<Rightarrow> [])"

section \<open>app.py: state\<close>

text \<open>
  The knowledge directory holds sub-directories and documents; a document is a regular
  file with its text, which the process may or may not be allowed to read and to write.
  The sessions directory is written by \<open>log_csv\<close> only, so it holds regular files that
  the process created and can append to, each with the time of its last modification.
  A directory is
  the list of its entries in the order in which the file system enumerates them, which
  no function below relies on; names are distinct. Instants are natural numbers, and
  \<open>isoformat\<close> is the rendering of an instant that \<open>datetime.isoformat()\<close> gives.
\<close>

record regular =
  data :: string
  readable :: bool

record document = regular +
  writable :: bool

record logfile = regular +
  st_mtime :: nat

datatype node = Dir | File document

text \<open>
  \<open>Path.read_text\<close> on a regular file that can be opened for reading, and
  \<open>Path.write_text\<close> on a document: opening it for writing raises \<open>PermissionError\<close>
  when the process may not write it, and the file is then as it was.
\<close>

definition read_text :: "'a regular_scheme \<Rightarrow> string" where
  "read_text f = universal_newlines (data f)"

definition write_text :: "platform \<Rightarrow> string \<Rightarrow> document \<Rightarrow> string + document" where
  "write_text os t f =
     (if writable f then Inr (f\<lparr>data := translate_out os t\<rparr>) else Inl ''PermissionError'')"

text \<open>The Flask \<open>session\<close> of the caller: an absent \<open>is_admin\<close> key reads as false.\<close>

record session =
  sid :: "string option"
  is_admin :: bool

text \<open>
  The state of the process and of its two directories, together with the requests posted
  to the remote endpoint so far.
\<close>

record server =
  chat_sessions :: "string \<rightharpoonup> message list"
  SYSTEM_PROMPT :: json
  TRAINING_DOCS_DIR :: "(string \<times> node) list"
  SESSIONS_DIR :: "(string \<times> logfile) list"
  posted :: "llm_request list"

text \<open>
  What a request meets outside the process: the configuration and the behaviour of the
  remote endpoint, the value of \<open>uuid.uuid4().hex\<close>, the clock at the two calls of
  \<open>log_csv\<close>, \<open>werkzeug.utils.secure_filename\<close> and \<open>os.linesep\<close>.
\<close>

record env =
  cfg :: config
  post :: "llm_request \<Rightarrow> post_result"
  uuid4_hex :: string
  now_first :: nat
  now_second :: nat
  isoformat :: "nat \<Rightarrow> string"
  secure_filename :: "string \<Rightarrow> string"
  os_name :: platform

record summary =
  session_id :: string
  message_count :: nat
  modified :: string

datatype reply =
    Chat string string
  | Error string
  | SessionId string
  | Uploaded "string list"
  | FileContent string string
  | Success
  | Sessions "summary list"
  | Uncaught string

type_synonym response = "nat \<times> reply"

definition ALLOWED_EXT :: "string set" where
  "ALLOWED_EXT = {''txt'', ''md'', ''csv'', ''json'', ''html'', ''xml'', ''yml'', ''yaml'',
                  ''log'', ''docx'', ''pdf''}"

definition initial_SYSTEM_PROMPT :: string where
  "initial_SYSTEM_PROMPT =
     ''You are the Zendesk Assistant, an AI support tool for Tetra Tech.'' @ [LF] @
     ''Answer questions using the provided knowledge base. Be professional and concise.'' @ [LF] @
     ''If the answer isn't in the documents, say so honestly.''"

section \<open>app.py: helpers\<close>

text \<open>
  \<open>sorted(xs)\<close> and \<open>sorted(xs, reverse=True)\<close> on paths of one directory: they
  compare by their names, code point by code point, and the sort is stable.
\<close>

definition sorted_paths :: "(string \<times> 'a) list \<Rightarrow> (string \<times> 'a) list" where
  "sorted_paths xs = sort_key fst xs"

definition sorted_paths_reverse :: "(string \<times> 'a) list \<Rightarrow> (string \<times> 'a) list" where
  "sorted_paths_reverse xs = rev (sort_key fst (rev xs))"

fun load_knowledge_loop :: "(string \<times> node) list \<Rightarrow> string list \<Rightarrow> string list" where
  "load_knowledge_loop [] docs = docs"
| "load_knowledge_loop ((name, Dir) # fs) docs = load_knowledge_loop fs docs"
| "load_knowledge_loop ((name, File f) # fs) docs =
     (if readable f
      then load_knowledge_loop fs
             (docs @ [''--- '' @ name @ '' ---'' @ [LF] @ read_text f])
      else load_knowledge_loop fs docs)"

definition load_knowledge :: "(string \<times> node) list \<Rightarrow> string" where
  "load_knowledge dir = join [LF, LF] (load_knowledge_loop (sorted_paths dir) [])"

definition get_session_id :: "env \<Rightarrow> session \<Rightarrow> string \<times> session" where
  "get_session_id e c =
     (case sid c of
        None \<Rightarrow> (take 12 (uuid4_hex e), c\<lparr>sid := Some (take 12 (uuid4_hex e))\<rparr>)
      | Some s \<Rightarrow> (s, c))"

text \<open>\<open>csv.writer\<close> with the default dialect.\<close>

definition csv_field :: "string \<Rightarrow> string" where
  "csv_field f =
     (if \<exists>c \<in> set f. c \<in> set [CHR '','', CHR 0x22, CR, LF]
      then [CHR 0x22] @ concat (map (\<lambda>c. if c = CHR 0x22 then [CHR 0x22, CHR 0x22] else [c]) f)
           @ [CHR 0x22]
      else f)"

definition writerow :: "string list \<Rightarrow> string" where
  "writerow row =
     (if row = [[]] then [CHR 0x22, CHR 0x22] else join '','' (map csv_field row))
     @ [CR, LF]"

definition log_csv ::
  "(nat \<Rightarrow> string) \<Rightarrow> nat \<Rightarrow> string \<Rightarrow> string \<Rightarrow> string
     \<Rightarrow> (string \<times> logfile) list \<Rightarrow> (string \<times> logfile) list" where
  "log_csv fmt now sid' role' content' dir =
     (let path = sid' @ ''.csv'';
          is_new = (map_of dir path = None);
          f = (case map_of dir path of
                 None \<Rightarrow> \<lparr>data = [], readable = True, st_mtime = now\<rparr>
               | Some g \<Rightarrow> g);
          header = (if is_new then writerow [''timestamp'', ''session_id'', ''role'', ''message'']
                    else [])
      in AList.update path
           (f\<lparr>data := data f @ header @ writerow [fmt now, sid', role', content'],
              st_mtime := now\<rparr>) dir)"

definition require_admin ::
  "(session \<times> server \<Rightarrow> response \<times> session \<times> server)
     \<Rightarrow> session \<times> server \<Rightarrow> response \<times> session \<times> server" where
  "require_admin f cs =
     (if \<not> is_admin (fst cs) then ((403, Error ''Unauthorized''), cs) else f cs)"

section \<open>app.py: routes\<close>

text \<open>\<open>chat_sessions[sid].append(m)\<close>: a \<open>KeyError\<close> is \<open>None\<close>.\<close>

definition append_message :: "string \<Rightarrow> message \<Rightarrow> server \<Rightarrow> server option" where
  "append_message s m st =
     (case chat_sessions st s of
        None \<Rightarrow> None
      | Some h \<Rightarrow> Some (st\<lparr>chat_sessions := (chat_sessions st)(s \<mapsto> h @ [m])\<rparr>))"

definition api_chat ::
  "env \<Rightarrow> string option \<Rightarrow> session \<times> server \<Rightarrow> response \<times> session \<times> server" where
  "api_chat e message cs =
     (let (c, st) = cs;
          msg = strip (case message of None \<Rightarrow> [] | Some m \<Rightarrow> m)
      in if msg = [] then ((400, Error ''Empty message''), c, st)
         else
           let (s, c1) = get_session_id e c;
               st1 = (if chat_sessions st s = None
                      then st\<lparr>chat_sessions := (chat_sessions st)(s \<mapsto> [])\<rparr> else st)
           in (case append_message s \<lparr>role = ''user'', content = msg\<rparr> st1 of
                 None \<Rightarrow> ((500, Uncaught ''KeyError''), c1, st1)
               | Some st2 \<Rightarrow>
                  (let st3 = st2\<lparr>SESSIONS_DIR :=
                               log_csv (isoformat e) (now_first e) s ''user'' msg (SESSIONS_DIR st2)\<rparr>
                   in (case chat_sessions st3 s of
                         None \<Rightarrow> ((500, Uncaught ''KeyError''), c1, st3)
                       | Some history \<Rightarrow>
                          (let knowledge = load_knowledge (TRAINING_DOCS_DIR st3);
                               st4 = st3\<lparr>posted := posted st3 @
                                       llm_requests (cfg e) history (SYSTEM_PROMPT st3) knowledge
                                         4096 (7 / 10)\<rparr>
                           in (case call_llm (cfg e) (post e) history (SYSTEM_PROMPT st3) knowledge
                                      4096 (7 / 10) of
                                 Inl exn \<Rightarrow> ((500, Uncaught exn), c1, st4)
                               | Inr reply \<Rightarrow>
                                  (case append_message s
                                          \<lparr>role = ''assistant'', content = reply\<rparr> st4 of
                                     None \<Rightarrow> ((500, Uncaught ''KeyError''), c1, st4)
                                   | Some st5 \<Rightarrow>
                                      ((200, Chat reply s), c1,
                                       st5\<lparr>SESSIONS_DIR :=
                                             log_csv (isoformat e) (now_second e) s ''assistant''
                                               reply (SESSIONS_DIR st5)\<rparr>))))))))"

definition new_session :: "env \<Rightarrow> session \<times> server \<Rightarrow> response \<times> session \<times> server" where
  "new_session e cs =
     (let (c, st) = cs;
          old = sid c;
          reg = (case old of
                   None \<Rightarrow> chat_sessions st
                 | Some s \<Rightarrow> if s \<in> dom (chat_sessions st) then (chat_sessions st)(s := None)
                            else chat_sessions st);
          new = take 12 (uuid4_hex e)
      in ((200, SessionId new), c\<lparr>sid := Some new\<rparr>, st\<lparr>chat_sessions := reg(new \<mapsto> [])\<rparr>))"

text \<open>
  \<open>TRAINING_DOCS_DIR / name\<close>: the empty name, which \<open>secure_filename\<close> can return, is
  the knowledge directory itself.
\<close>

definition lookup_path :: "(string \<times> node) list \<Rightarrow> string \<Rightarrow> node option" where
  "lookup_path dir name = (if name = [] then Some Dir else map_of dir name)"

text \<open>
  The loop of \<open>upload_file\<close> over \<open>request.files.getlist("file")\<close>, each entry with its
  file name (empty when missing) and its bytes. \<open>Inl\<close> is the exception that ends it.
\<close>

fun upload_loop ::
  "(string \<Rightarrow> string) \<Rightarrow> (string \<times> string) list \<Rightarrow> string list \<Rightarrow> (string \<times> node) list
     \<Rightarrow> (string + string list) \<times> (string \<times> node) list" where
  "upload_loop sf [] uploaded dir = (Inr uploaded, dir)"
| "upload_loop sf ((filename, bytes) # fs) uploaded dir =
     (if filename \<noteq> [] then
        (case lookup_path dir (sf filename) of
           Some Dir \<Rightarrow> (Inl ''IsADirectoryError'', dir)
         | Some (File f) \<Rightarrow>
             (if writable f
              then upload_loop sf fs (uploaded @ [sf filename])
                     (AList.update (sf filename) (File (f\<lparr>data := bytes\<rparr>)) dir)
              else (Inl ''PermissionError'', dir))
         | None \<Rightarrow>
             upload_loop sf fs (uploaded @ [sf filename])
               (AList.update (sf filename)
                  (File \<lparr>data = bytes, readable = True, writable = True\<rparr>) dir))
      else upload_loop sf fs uploaded dir)"

definition upload_file ::
  "env \<Rightarrow> (string \<times> string) list \<Rightarrow> session \<times> server \<Rightarrow> response \<times> session \<times> server" where
  "upload_file e files =
     require_admin (\<lambda>(c, st).
       case upload_loop (secure_filename e) files [] (TRAINING_DOCS_DIR st) of
         (Inl exn, dir) \<Rightarrow> ((500, Uncaught exn), c, st\<lparr>TRAINING_DOCS_DIR := dir\<rparr>)
       | (Inr uploaded, dir) \<Rightarrow>
           ((if uploaded \<noteq> [] then (200, Uploaded uploaded) else (400, Error ''No valid files'')),
            c, st\<lparr>TRAINING_DOCS_DIR := dir\<rparr>))"


definition update_file ::
  "env \<Rightarrow> string \<Rightarrow> string option \<Rightarrow> session \<times> server \<Rightarrow> response \<times> session \<times> server" where
  "update_file e filename content' =
     require_admin (\<lambda>(c, st).
       case lookup_path (TRAINING_DOCS_DIR st) (secure_filename e filename) of
         None \<Rightarrow> ((404, Error ''Not found''), c, st)
       | Some Dir \<Rightarrow> ((500, Uncaught ''IsADirectoryError''), c, st)
       | Some (File f) \<Rightarrow>
           (case write_text (os_name e) (case content' of None \<Rightarrow> [] | Some t \<Rightarrow> t) f of
              Inl exn \<Rightarrow> ((500, Uncaught exn), c, st)
            | Inr g \<Rightarrow>
                ((200, Success), c,
                 st\<lparr>TRAINING_DOCS_DIR :=
                      AList.update (secure_filename e filename) (File g)
                        (TRAINING_DOCS_DIR st)\<rparr>)))"

text \<open>\<open>PurePath.stem\<close>: the name up to its last dot, when that dot is neither first nor last.\<close>

definition stem :: "string \<Rightarrow> string" where
  "stem name =
     (let i = length name - 1 - length (takeWhile (\<lambda>c. c \<noteq> CHR ''.'') (rev name))
      in if CHR ''.'' \<in> set name \<and> 0 < i \<and> i < length name - 1 then take i name else name)"

definition glob_csv :: "(string \<times> logfile) list \<Rightarrow> (string \<times> logfile) list" where
  "glob_csv dir = filter (\<lambda>(name, f). suffix ''.csv'' name) dir"

text \<open>The body of the loop of \<open>list_sessions\<close>.\<close>

definition summary_of :: "env \<Rightarrow> string \<times> logfile \<Rightarrow> summary" where
  "summary_of e nf =
     \<lparr>session_id = stem (fst nf),
      message_count = (if readable (snd nf)
                       then nat (max (int (count_lines (data (snd nf))) - 1) 0) else 0),
      modified = isoformat e (st_mtime (snd nf))\<rparr>"

definition list_sessions :: "env \<Rightarrow> session \<times> server \<Rightarrow> response \<times> session \<times> server" where
  "list_sessions e =
     require_admin (\<lambda>(c, st).
       ((200, Sessions (map (summary_of e) (sorted_paths_reverse (glob_csv (SESSIONS_DIR st))))),
        c, st))"

definition set_prompt ::
  "json option \<Rightarrow> session \<times> server \<Rightarrow> response \<times> session \<times> server" where
  "set_prompt prompt =
     require_admin (\<lambda>(c, st).
       ((200, Success), c,
        st\<lparr>SYSTEM_PROMPT := (case prompt of None \<Rightarrow> SYSTEM_PROMPT st | Some p \<Rightarrow> p)\<rparr>))"

section \<open>The specification's words\<close>

text \<open>
  The contract of knowledge aggregation as the specification words it: one block per
  readable file, \<open>--- {name} ---\<close>, a newline and the content, in the sorted order of
  the file names, joined by blank lines.
\<close>

definition readable_files :: "(string \<times> node) list \<Rightarrow> string set" where
  "readable_files dir = {name. \<exists>f. map_of dir name = Some (File f) \<and> readable f}"

definition content_of :: "(string \<times> node) list \<Rightarrow> string \<Rightarrow> string" where
  "content_of dir name = (case map_of dir name of Some (File f) \<Rightarrow> read_text f | _ \<Rightarrow> [])"

definition build_context :: "(string \<times> node) list \<Rightarrow> string" where
  "build_context dir =
     join [LF, LF]
       (map (\<lambda>name. ''--- '' @ name @ '' ---'' @ [LF] @ content_of dir name)
            (sorted_list_of_set (readable_files dir)))"

text \<open>
  A failure of the LLM call: a transport error, an HTTP error status, or a response that
  cannot be parsed down to the content of its first choice.
\<close>

definition llm_call_fails :: "post_result \<Rightarrow> bool" where
  "llm_call_fails r =
     (case r of
        PostRaised e resp \<Rightarrow> True
      | Answered status_code e b \<Rightarrow>
          (400 \<le> status_code \<and> status_code < 600) \<or>
          (case b of NotJson d \<Rightarrow> True | Json dumped (Inl d) \<Rightarrow> True | Json dumped (Inr c) \<Rightarrow> False))"

text \<open>A name that ends in one of the accepted extensions.\<close>

definition has_allowed_extension :: "string \<Rightarrow> bool" where
  "has_allowed_extension name \<longleftrightarrow> (\<exists>ext \<in> ALLOWED_EXT. suffix (CHR ''.'' # ext) name)"

text \<open>A listing with the most recently modified log first.\<close>

definition most_recent_first :: "(string \<times> logfile) list \<Rightarrow> bool" where
  "most_recent_first logs \<longleftrightarrow> sorted_wrt (\<lambda>a b. st_mtime (snd a) \<ge> st_mtime (snd b)) logs"

section \<open>Example inputs\<close>

text \<open>
  \<open>werkzeug.utils.secure_filename\<close> on a POSIX host, for ASCII names, on which the
  Unicode normalisation it starts with changes nothing. On a name with other code
  points werkzeug first decomposes the letters, which this rendering does not do: it is
  applied to ASCII names only.
\<close>

fun split_loop :: "string \<Rightarrow> string \<Rightarrow> string list" where
  "split_loop word [] = (if word = [] then [] else [word])"
| "split_loop word (c # cs) =
     (if isspace c then (if word = [] then split_loop [] cs else word # split_loop [] cs)
      else split_loop (word @ [c]) cs)"

definition filename_char :: "char \<Rightarrow> bool" where
  "filename_char c \<longleftrightarrow>
     c \<in> set ''ABCDEFGHIJKLMNOPQRSTUVWXYZabcdefghijklmnopqrstuvwxyz0123456789_.-''"

definition werkzeug_secure_filename :: "string \<Rightarrow> string" where
  "werkzeug_secure_filename filename =
     (let ascii = filter (\<lambda>c. (of_char c :: nat) < 128) filename;
          spaced = map (\<lambda>c. if c = CHR ''/'' then CHR '' '' else c) ascii;
          kept = filter filename_char (join ''_'' (split_loop [] spaced))
      in rev (dropWhile (\<lambda>c. c \<in> set ''._'') (rev (dropWhile (\<lambda>c. c \<in> set ''._'') kept))))"

definition example_env :: env where
  "example_env =
     \<lparr>cfg = \<lparr>AZURE_ENDPOINT = ''https://example.services.ai.azure.com/'',
              AZURE_API_KEY = ''key'',
              AZURE_MODEL = ''claude-sonnet-4-20250514'',
              AZURE_API_VERSION = ''2024-05-01-preview''\<rparr>,
      post = (\<lambda>r. Answered 200 [] (Json ''{}'' (Inr ''Hello!''))),
      uuid4_hex = ''0123456789ab4def8123456789abcdef'',
      now_first = 20,
      now_second = 21,
      isoformat = str_nat,
      secure_filename = werkzeug_secure_filename,
      os_name = Posix\<rparr>"

text \<open>The same with the remote endpoint out of reach.\<close>

definition offline_env :: env where
  "offline_env = example_env\<lparr>post := (\<lambda>r. PostRaised ''Connection refused'' None)\<rparr>"

definition example_server :: server where
  "example_server =
     \<lparr>chat_sessions = Map.empty,
      SYSTEM_PROMPT = JStr initial_SYSTEM_PROMPT,
      TRAINING_DOCS_DIR =
        [(''b.txt'', File \<lparr>data = ''Y'', readable = True, writable = True\<rparr>),
         (''a.txt'', File \<lparr>data = ''X'', readable = True, writable = True\<rparr>)],
      SESSIONS_DIR =
        [(''aaaaaaaaaaaa.csv'',
          \<lparr>data = writerow [''timestamp'', ''session_id'', ''role'', ''message''] @
                  writerow [''10'', ''aaaaaaaaaaaa'', ''user'', ''hello''],
           readable = True, st_mtime = 10\<rparr>),
         (''bbbbbbbbbbbb.csv'',
          \<lparr>data = writerow [''timestamp'', ''session_id'', ''role'', ''message''] @
                  writerow [''5'', ''bbbbbbbbbbbb'', ''user'', ''hi, there''],
           readable = True, st_mtime = 5\<rparr>)],
      posted = []\<rparr>"

definition visitor :: session where
  "visitor = \<lparr>sid = None, is_admin = False\<rparr>"

definition admin :: session where
  "admin = \<lparr>sid = Some ''aaaaaaaaaaaa'', is_admin = True\<rparr>"

text \<open>
  The visitor's session and the server after the visitor's first message, \<open>hi\<close>, has
  been answered; and an environment whose next UUID is another one.
\<close>

definition returning :: session where
  "returning = \<lparr>sid = Some ''0123456789ab'', is_admin = False\<rparr>"

definition busy_server :: server where
  "busy_server =
     example_server
       \<lparr>chat_sessions :=
          [''0123456789ab'' \<mapsto> [\<lparr>role = ''user'', content = ''hi''\<rparr>,
                                \<lparr>role = ''assistant'', content = ''Hello!''\<rparr>]],
        SESSIONS_DIR :=
          SESSIONS_DIR example_server @
          [(''0123456789ab.csv'',
            \<lparr>data = writerow [''timestamp'', ''session_id'', ''role'', ''message''] @
                    writerow [''20'', ''0123456789ab'', ''user'', ''hi''] @
                    writerow [''21'', ''0123456789ab'', ''assistant'', ''Hello!''],
             readable = True, st_mtime = 21\<rparr>)],
        posted :=
          [build_request (cfg example_env) [\<lparr>role = ''user'', content = ''hi''\<rparr>]
             initial_SYSTEM_PROMPT (load_knowledge (TRAINING_DOCS_DIR example_server))
             4096 (7 / 10)]\<rparr>"

definition later_env :: env where
  "later_env = example_env\<lparr>uuid4_hex := ''fedcba9876544321a0123456789abcde''\<rparr>"

section \<open>Properties\<close>


subsection \<open>Text\<close>

lemma dropWhile_all: "(\<forall>x \<in> set xs. P x) \<Longrightarrow> dropWhile P xs = []"
  by (induction xs) auto

lemma strip_empty_iff: "strip s = [] \<longleftrightarrow> (\<forall>c \<in> set s. isspace c)"
proof
  assume e: "strip s = []"
  show "\<forall>c \<in> set s. isspace c"
  proof (rule ccontr)
    assume "\<not> (\<forall>c \<in> set s. isspace c)"
    then have "dropWhile isspace s \<noteq> []" by (simp add: dropWhile_eq_Nil_conv)
    then obtain x xs where d: "dropWhile isspace s = x # xs" by (cases "dropWhile isspace s") auto
    then have "\<not> isspace x" using hd_dropWhile [of isspace s] by simp
    with d have "dropWhile isspace (rev (dropWhile isspace s)) \<noteq> []"
      by (auto simp: dropWhile_eq_Nil_conv)
    with e show False by (simp add: strip_def)
  qed
next
  assume "\<forall>c \<in> set s. isspace c"
  then show "strip s = []" by (simp add: strip_def dropWhile_all)
qed

subsection \<open>The system message\<close>

text \<open>
  C7. For every system prompt and knowledge context, the system message \<open>call_llm\<close>
  builds is: the trimmed prompt, a blank line and the knowledge block when both are
  non-empty after trimming; the trimmed prompt alone when only it is; the knowledge
  block alone when only the context is; and the generic helpful-assistant text when
  both are empty. The knowledge block opens with \<open>=== KNOWLEDGE BASE ===\<close> (and a line
  of instructions), wraps the trimmed knowledge context, and closes with
  \<open>=== END KNOWLEDGE BASE ===\<close>.
\<close>

theorem full_system_cases:
  "full_system system_prompt knowledge_context =
     (if strip system_prompt \<noteq> [] \<and> strip knowledge_context \<noteq> []
      then strip system_prompt @ [LF, LF] @
           ''=== KNOWLEDGE BASE ==='' @ [LF] @
           ''Use this information to answer questions. If the answer isn't here, say so.'' @
           [LF, LF] @ strip knowledge_context @ [LF] @ ''=== END KNOWLEDGE BASE ===''
      else if strip system_prompt \<noteq> [] then strip system_prompt
      else if strip knowledge_context \<noteq> []
      then ''=== KNOWLEDGE BASE ==='' @ [LF] @
           ''Use this information to answer questions. If the answer isn't here, say so.'' @
           [LF, LF] @ strip knowledge_context @ [LF] @ ''=== END KNOWLEDGE BASE ===''
      else ''You are a helpful assistant.'')"
  by (simp add: full_system_def knowledge_block_def)

theorem full_system_cases_witness:
  "full_system '' Be brief. '' [LF, CHR ''k'', CHR ''b'', LF] =
     ''Be brief.'' @ [LF, LF] @ ''=== KNOWLEDGE BASE ==='' @ [LF] @
     ''Use this information to answer questions. If the answer isn't here, say so.'' @
     [LF, LF] @ ''kb'' @ [LF] @ ''=== END KNOWLEDGE BASE ===''"
proof -
  have a: "strip '' Be brief. '' = ''Be brief.''"
    by (simp add: strip_def isspace_def)
  have b: "strip [LF, CHR ''k'', CHR ''b'', LF] = ''kb''"
    by (simp add: strip_def isspace_def)
  show ?thesis
    unfolding full_system_cases [of "'' Be brief. ''" "[LF, CHR ''k'', CHR ''b'', LF]"] a b
    by simp
qed

subsection \<open>Chat\<close>

text \<open>
  C9. A chat request whose message is absent, empty or made of whitespace only is
  answered with status 400 and the error \<open>Empty message\<close>, and the caller's session
  and the whole server state come back as they were: no session id is assigned, the
  registry and the session logs are untouched, and nothing is posted to the LLM.
\<close>

theorem api_chat_empty_message:
  assumes "\<forall>m. message = Some m \<longrightarrow> (\<forall>ch \<in> set m. isspace ch)"
  shows "api_chat e message (c, st) = ((400, Error ''Empty message''), c, st)"
proof (cases message)
  case None
  then show ?thesis by (simp add: api_chat_def strip_def)
next
  case (Some m)
  with assms have "strip m = []" by (simp add: strip_empty_iff)
  with Some show ?thesis by (simp add: api_chat_def)
qed

theorem api_chat_empty_message_witness:
  "api_chat example_env (Some [CHR '' '', LF, CHR 0x09]) (visitor, example_server) =
     ((400, Error ''Empty message''), visitor, example_server)"
  by (rule api_chat_empty_message) (simp add: isspace_def)

subsection \<open>A chat turn\<close>

lemma log_csv_same:
  "map_of (log_csv fmt now s r t dir) (s @ ''.csv'') =
     Some (case map_of dir (s @ ''.csv'') of
             None \<Rightarrow> \<lparr>data = writerow [''timestamp'', ''session_id'', ''role'', ''message''] @
                              writerow [fmt now, s, r, t],
                       readable = True, st_mtime = now\<rparr>
           | Some g \<Rightarrow> g\<lparr>data := data g @ writerow [fmt now, s, r, t], st_mtime := now\<rparr>)"
  by (simp add: log_csv_def update_conv' split: option.splits)

lemma log_csv_other:
  "p \<noteq> s @ ''.csv'' \<Longrightarrow> map_of (log_csv fmt now s r t dir) p = map_of dir p"
  by (simp add: log_csv_def update_conv' Let_def)

lemma get_session_id_eq:
  "get_session_id e c =
     ((case sid c of None \<Rightarrow> take 12 (uuid4_hex e) | Some s \<Rightarrow> s),
      c\<lparr>sid := Some (case sid c of None \<Rightarrow> take 12 (uuid4_hex e) | Some s \<Rightarrow> s)\<rparr>)"
  by (cases "sid c") (simp_all add: get_session_id_def)

text \<open>A turn when the system prompt is text: the call to the LLM is made.\<close>

lemma api_chat_turn:
  assumes "strip m \<noteq> []" and "SYSTEM_PROMPT st = JStr p"
  shows "api_chat e (Some m) (c, st) =
    (let s = (case sid c of None \<Rightarrow> take 12 (uuid4_hex e) | Some s \<Rightarrow> s);
         history = (case chat_sessions st s of None \<Rightarrow> [] | Some h \<Rightarrow> h) @
                   [\<lparr>role = ''user'', content = strip m\<rparr>];
         knowledge = load_knowledge (TRAINING_DOCS_DIR st);
         request = build_request (cfg e) history p knowledge 4096 (7 / 10);
         reply = (case try_block (post e request) of
                    Inr c \<Rightarrow> c
                  | Inl x \<Rightarrow> ''Error connecting to AI service. ('' @ error_msg x @ '')'')
     in ((200, Chat reply s), c\<lparr>sid := Some s\<rparr>,
         st\<lparr>chat_sessions := (chat_sessions st)
                 (s \<mapsto> history @ [\<lparr>role = ''assistant'', content = reply\<rparr>]),
            SESSIONS_DIR := log_csv (isoformat e) (now_second e) s ''assistant'' reply
                             (log_csv (isoformat e) (now_first e) s ''user'' (strip m)
                                (SESSIONS_DIR st)),
            posted := posted st @ [request]\<rparr>))"
  using assms
  by (cases "chat_sessions st (case sid c of None \<Rightarrow> take 12 (uuid4_hex e) | Some s \<Rightarrow> s)")
     (simp_all add: api_chat_def get_session_id_eq append_message_def call_llm_def
        llm_requests_def Let_def)

text \<open>
  A turn when the system prompt is not text: \<open>call_llm\<close> raises before it posts
  anything, after the user message has been stored and logged.
\<close>

lemma api_chat_prompt_not_text:
  assumes "strip m \<noteq> []" and "\<And>p. SYSTEM_PROMPT st \<noteq> JStr p"
  shows "api_chat e (Some m) (c, st) =
    (let s = (case sid c of None \<Rightarrow> take 12 (uuid4_hex e) | Some s \<Rightarrow> s);
         history = (case chat_sessions st s of None \<Rightarrow> [] | Some h \<Rightarrow> h) @
                   [\<lparr>role = ''user'', content = strip m\<rparr>]
     in ((500, Uncaught ''AttributeError''), c\<lparr>sid := Some s\<rparr>,
         st\<lparr>chat_sessions := (chat_sessions st)(s \<mapsto> history),
            SESSIONS_DIR := log_csv (isoformat e) (now_first e) s ''user'' (strip m)
                             (SESSIONS_DIR st)\<rparr>))"
proof -
  have c: "call_llm cf po h (SYSTEM_PROMPT st) k mt t = Inl ''AttributeError''"
    and r: "llm_requests cf h (SYSTEM_PROMPT st) k mt t = []" for cf po h k mt t
    using assms(2) by (cases "SYSTEM_PROMPT st"; simp add: call_llm_def llm_requests_def)+
  show ?thesis
    using assms(1)
    by (cases "chat_sessions st (case sid c of None \<Rightarrow> take 12 (uuid4_hex e) | Some s \<Rightarrow> s)")
       (simp_all add: api_chat_def get_session_id_eq append_message_def c r Let_def)
qed

text \<open>The visitor's first message on the example server, answered by the LLM.\<close>

lemma first_chat:
  "api_chat example_env (Some '' hi '') (visitor, example_server) =
     ((200, Chat ''Hello!'' ''0123456789ab''), returning, busy_server)"
proof -
  have h: "strip '' hi '' \<noteq> []" by (simp add: strip_def isspace_def)
  have p: "SYSTEM_PROMPT example_server = JStr initial_SYSTEM_PROMPT"
    by (simp add: example_server_def)
  show ?thesis
    unfolding api_chat_turn [OF h p]
    by (simp add: example_env_def visitor_def returning_def busy_server_def example_server_def
        strip_def isspace_def log_csv_def str_nat.simps digit_def Let_def)
qed

text \<open>
  C1 fails on the code. \<open>set_prompt\<close> stores whatever JSON value the \<open>prompt\<close> field
  holds. Once an admin has stored \<open>null\<close>, a chat request with the message \<open>hi\<close> is
  answered with status 500: the user message is in the registry and in the log, and no
  assistant message follows it in either, because \<open>call_llm\<close> raises outside its
  \<open>try\<close>.
\<close>

theorem api_chat_after_null_prompt:
  "set_prompt (Some JNull) (admin, example_server) =
     ((200, Success), admin, example_server\<lparr>SYSTEM_PROMPT := JNull\<rparr>) \<and>
   api_chat example_env (Some ''hi'') (visitor, example_server\<lparr>SYSTEM_PROMPT := JNull\<rparr>) =
     ((500, Uncaught ''AttributeError''), returning,
      example_server
        \<lparr>SYSTEM_PROMPT := JNull,
         chat_sessions := [''0123456789ab'' \<mapsto> [\<lparr>role = ''user'', content = ''hi''\<rparr>]],
         SESSIONS_DIR :=
           SESSIONS_DIR example_server @
           [(''0123456789ab.csv'',
             \<lparr>data = writerow [''timestamp'', ''session_id'', ''role'', ''message''] @
                     writerow [''20'', ''0123456789ab'', ''user'', ''hi''],
              readable = True, st_mtime = 20\<rparr>)]\<rparr>)"
proof -
  have h: "strip ''hi'' \<noteq> []" by (simp add: strip_def isspace_def)
  have p: "SYSTEM_PROMPT (example_server\<lparr>SYSTEM_PROMPT := JNull\<rparr>) \<noteq> JStr p" for p
    by simp
  have "set_prompt (Some JNull) (admin, example_server) =
          ((200, Success), admin, example_server\<lparr>SYSTEM_PROMPT := JNull\<rparr>)"
    by (simp add: set_prompt_def require_admin_def admin_def)
  moreover have
    "api_chat example_env (Some ''hi'') (visitor, example_server\<lparr>SYSTEM_PROMPT := JNull\<rparr>) =
       ((500, Uncaught ''AttributeError''), returning,
        example_server
          \<lparr>SYSTEM_PROMPT := JNull,
           chat_sessions := [''0123456789ab'' \<mapsto> [\<lparr>role = ''user'', content = ''hi''\<rparr>]],
           SESSIONS_DIR :=
             SESSIONS_DIR example_server @
             [(''0123456789ab.csv'',
               \<lparr>data = writerow [''timestamp'', ''session_id'', ''role'', ''message''] @
                       writerow [''20'', ''0123456789ab'', ''user'', ''hi''],
                readable = True, st_mtime = 20\<rparr>)]\<rparr>)"
    unfolding api_chat_prompt_not_text [OF h p]
    by (simp add: example_env_def visitor_def returning_def example_server_def
        strip_def isspace_def log_csv_def str_nat.simps digit_def Let_def)
  ultimately show ?thesis by (rule conjI)
qed

lemma try_block_fails: "llm_call_fails r \<longleftrightarrow> (\<exists>x. try_block r = Inl x)"
  by (cases r) (auto simp: llm_call_fails_def split: body.splits sum.splits)

lemma prefix_error_msg: "prefix (fst x) (error_msg x)"
  by (cases x rule: error_msg.cases) simp_all

text \<open>
  C2. When the LLM call of a chat request (message non-empty after trimming; the
  system prompt a text \<open>p\<close>, with which the call is made) fails, by a transport error,
  an HTTP error status or an unparsable response, the \<open>try\<close> block of \<open>call_llm\<close>
  ends in an exception \<open>x\<close> and \<open>call_llm\<close> returns the text
  \<open>Error connecting to AI service. (...)\<close> around an error message that starts with
  the text of \<open>x\<close>; \<open>api_chat\<close> answers 200 with that text as the reply, appends it to
  the registry entry as the assistant message, and the session log ends with its row.
\<close>

theorem llm_failure_is_assistant_reply:
  fixes e c st m p
  defines "s \<equiv> (case sid c of None \<Rightarrow> take 12 (uuid4_hex e) | Some s \<Rightarrow> s)"
  defines "history \<equiv> (case chat_sessions st s of None \<Rightarrow> [] | Some h \<Rightarrow> h) @
                       [\<lparr>role = ''user'', content = strip m\<rparr>]"
  defines "knowledge \<equiv> load_knowledge (TRAINING_DOCS_DIR st)"
  assumes "strip m \<noteq> []"
    and "SYSTEM_PROMPT st = JStr p"
    and "llm_call_fails (post e (build_request (cfg e) history p knowledge 4096 (7 / 10)))"
  shows "\<exists>x reply c' st' f'.
           try_block (post e (build_request (cfg e) history p knowledge 4096 (7 / 10))) = Inl x \<and>
           reply = ''Error connecting to AI service. ('' @ error_msg x @ '')'' \<and>
           prefix (fst x) (error_msg x) \<and>
           call_llm (cfg e) (post e) history (SYSTEM_PROMPT st) knowledge 4096 (7 / 10)
             = Inr reply \<and>
           api_chat e (Some m) (c, st) = ((200, Chat reply s), c', st') \<and>
           chat_sessions st' s = Some (history @ [\<lparr>role = ''assistant'', content = reply\<rparr>]) \<and>
           map_of (SESSIONS_DIR st') (s @ ''.csv'') = Some f' \<and>
           suffix (writerow [isoformat e (now_second e), s, ''assistant'', reply]) (data f')"
proof -
  let ?req = "build_request (cfg e) history p knowledge 4096 (7 / 10)"
  from assms(6) obtain x where x: "try_block (post e ?req) = Inl x"
    by (auto simp: try_block_fails)
  let ?reply = "''Error connecting to AI service. ('' @ error_msg x @ '')''"
  have r: "call_llm (cfg e) (post e) history (SYSTEM_PROMPT st) knowledge 4096 (7 / 10)
             = Inr ?reply"
    using x assms(5) by (simp add: call_llm_def)
  let ?dir = "log_csv (isoformat e) (now_first e) s ''user'' (strip m) (SESSIONS_DIR st)"
  let ?st = "st\<lparr>chat_sessions := (chat_sessions st)
                    (s \<mapsto> history @ [\<lparr>role = ''assistant'', content = ?reply\<rparr>]),
               SESSIONS_DIR := log_csv (isoformat e) (now_second e) s ''assistant'' ?reply ?dir,
               posted := posted st @ [?req]\<rparr>"
  have a: "api_chat e (Some m) (c, st) = ((200, Chat ?reply s), c\<lparr>sid := Some s\<rparr>, ?st)"
    using api_chat_turn [OF assms(4,5), of e c] x
    unfolding s_def history_def knowledge_def by (simp add: Let_def)
  obtain g where g: "map_of ?dir (s @ ''.csv'') = Some g"
    by (simp add: log_csv_same)
  have l: "map_of (SESSIONS_DIR ?st) (s @ ''.csv'') =
             Some (g\<lparr>data := data g @ writerow [isoformat e (now_second e), s, ''assistant'', ?reply],
                     st_mtime := now_second e\<rparr>)"
    using g by (simp add: log_csv_same)
  have "chat_sessions ?st s = Some (history @ [\<lparr>role = ''assistant'', content = ?reply\<rparr>])"
    by simp
  with x r a l prefix_error_msg [of x] show ?thesis
    by (intro exI conjI) (assumption | simp add: suffix_def)+
qed

theorem llm_failure_is_assistant_reply_witness:
  "fst (api_chat offline_env (Some ''hi'') (visitor, example_server)) =
     (200, Chat ''Error connecting to AI service. (Connection refused)'' ''0123456789ab'')"
proof -
  have h: "strip ''hi'' \<noteq> []" by (simp add: strip_def isspace_def)
  have p: "SYSTEM_PROMPT example_server = JStr initial_SYSTEM_PROMPT"
    by (simp add: example_server_def)
  have f: "llm_call_fails (post offline_env r)" for r
    by (simp add: offline_env_def llm_call_fails_def)
  from llm_failure_is_assistant_reply
         [where e = offline_env and c = visitor and st = example_server and m = "''hi''",
          OF h p f]
  show ?thesis
    by (auto simp: offline_env_def example_env_def visitor_def)
qed

subsection \<open>Sessions\<close>

lemma busy_server_history:
  "chat_sessions busy_server ''0123456789ab'' =
     Some [\<lparr>role = ''user'', content = ''hi''\<rparr>, \<lparr>role = ''assistant'', content = ''Hello!''\<rparr>]"
  by (simp add: busy_server_def)

text \<open>
  C8, as the code has it. When the caller's session id is \<open>S\<close>, \<open>new_session\<close> returns
  as the new identifier the first twelve hexadecimal digits of the UUID it draws, and
  stores it in the caller's session; the registry afterwards is the one before with the
  entry of \<open>S\<close> removed and the new identifier mapped to the empty history; the
  sessions directory, and with it the log of \<open>S\<close>, is unchanged; and whenever the new
  identifier differs from \<open>S\<close>, the registry has no entry for \<open>S\<close> any more.
\<close>

theorem new_session_resets:
  assumes "sid c = Some S"
  shows "\<exists>new c' st'. new_session e (c, st) = ((200, SessionId new), c', st') \<and>
           new = take 12 (uuid4_hex e) \<and> sid c' = Some new \<and>
           chat_sessions st' = (chat_sessions st)(S := None, new \<mapsto> []) \<and>
           chat_sessions st' new = Some [] \<and>
           SESSIONS_DIR st' = SESSIONS_DIR st \<and>
           (new \<noteq> S \<longrightarrow> chat_sessions st' S = None)"
proof -
  have "(if S \<in> dom (chat_sessions st) then (chat_sessions st)(S := None)
         else chat_sessions st) = (chat_sessions st)(S := None)"
    by (auto simp: fun_eq_iff)
  with assms show ?thesis by (simp add: new_session_def Let_def)
qed

theorem new_session_resets_witness:
  "chat_sessions busy_server ''0123456789ab'' =
     Some [\<lparr>role = ''user'', content = ''hi''\<rparr>, \<lparr>role = ''assistant'', content = ''Hello!''\<rparr>] \<and>
   fst (new_session later_env (returning, busy_server)) = (200, SessionId ''fedcba987654'') \<and>
   chat_sessions (snd (snd (new_session later_env (returning, busy_server)))) ''0123456789ab''
     = None \<and>
   chat_sessions (snd (snd (new_session later_env (returning, busy_server)))) ''fedcba987654''
     = Some [] \<and>
   SESSIONS_DIR (snd (snd (new_session later_env (returning, busy_server))))
     = SESSIONS_DIR busy_server"
proof -
  have h: "sid returning = Some ''0123456789ab''"
    by (simp add: returning_def)
  have n: "take 12 (uuid4_hex later_env) = ''fedcba987654''"
    by (simp add: later_env_def)
  from new_session_resets [OF h, of later_env busy_server]
  obtain new c' st' where
    "new_session later_env (returning, busy_server) = ((200, SessionId new), c', st')"
    "new = take 12 (uuid4_hex later_env)"
    "chat_sessions st' new = Some []"
    "SESSIONS_DIR st' = SESSIONS_DIR busy_server"
    "new \<noteq> ''0123456789ab'' \<longrightarrow> chat_sessions st' ''0123456789ab'' = None"
    by blast
  with n busy_server_history show ?thesis by simp
qed

text \<open>
  C8, as the claim states it, fails when the draw repeats the caller's identifier,
  which nothing in \<open>new_session\<close> excludes: the identifier returned to the visitor of
  the example is then the one the visitor had, and the registry has an entry for it.
\<close>

theorem new_session_counterexample:
  "sid returning = Some ''0123456789ab'' \<and>
   new_session example_env (returning, busy_server) =
     ((200, SessionId ''0123456789ab''), returning,
      busy_server\<lparr>chat_sessions := [''0123456789ab'' \<mapsto> []]\<rparr>)"
  by (simp add: new_session_def example_env_def returning_def busy_server_def Let_def
      fun_eq_iff)

subsection \<open>The system prompt\<close>

text \<open>
  C10. \<open>set_prompt\<close> never changes the knowledge directory or the sessions directory.
  When the request body has no \<open>prompt\<close> field, the system prompt keeps its value, and
  the caller who passes \<open>require_admin\<close> is answered with success.
\<close>

theorem set_prompt_without_field:
  "\<exists>r c' st'. set_prompt prompt (c, st) = (r, c', st') \<and>
     TRAINING_DOCS_DIR st' = TRAINING_DOCS_DIR st \<and> SESSIONS_DIR st' = SESSIONS_DIR st \<and>
     (prompt = None \<longrightarrow>
        SYSTEM_PROMPT st' = SYSTEM_PROMPT st \<and> (is_admin c \<longrightarrow> r = (200, Success)))"
  by (simp add: set_prompt_def require_admin_def)

theorem set_prompt_without_field_witness:
  "fst (set_prompt None (admin, example_server)) = (200, Success) \<and>
   SYSTEM_PROMPT (snd (snd (set_prompt None (admin, example_server)))) = JStr initial_SYSTEM_PROMPT"
proof -
  have a: "is_admin admin" by (simp add: admin_def)
  from set_prompt_without_field [of None admin example_server]
  obtain r c' st' where
    "set_prompt None (admin, example_server) = (r, c', st')"
    "SYSTEM_PROMPT st' = SYSTEM_PROMPT example_server" "is_admin admin \<longrightarrow> r = (200, Success)"
    by blast
  with a show ?thesis by (simp add: example_server_def)
qed

subsection \<open>Knowledge aggregation\<close>

lemma load_knowledge_loop_blocks:
  assumes "\<forall>(n, nd) \<in> set xs. map_of dir n = Some nd"
  shows "load_knowledge_loop xs docs =
           docs @ map (\<lambda>name. ''--- '' @ name @ '' ---'' @ [LF] @ content_of dir name)
                      (filter (\<lambda>n. n \<in> readable_files dir) (map fst xs))"
  using assms
proof (induction xs docs rule: load_knowledge_loop.induct)
  case (1 docs)
  then show ?case by simp
next
  case (2 name fs docs)
  then show ?case by (simp add: readable_files_def)
next
  case (3 name f fs docs)
  then show ?case by (simp add: readable_files_def content_of_def)
qed

lemma readable_files_subset: "readable_files dir \<subseteq> fst ` set dir"
  by (auto simp: readable_files_def dest!: map_of_SomeD intro: rev_image_eqI)

lemma sorted_readable_names:
  assumes "distinct (map fst dir)"
  shows "filter (\<lambda>n. n \<in> readable_files dir) (map fst (sort_key fst dir)) =
           sorted_list_of_set (readable_files dir)"
proof -
  let ?ns = "map fst (sort_key fst dir)"
  let ?xs = "filter (\<lambda>n. n \<in> readable_files dir) ?ns"
  have d: "distinct ?ns" using assms by (simp add: distinct_map)
  have s: "sorted ?ns" by (rule sorted_sort_key)
  have "sorted ?xs" using s by (simp add: sorted_wrt_filter)
  moreover have "distinct ?xs" using d by simp
  moreover have "set ?xs = readable_files dir"
    using readable_files_subset [of dir] by auto
  ultimately show ?thesis
    using sorted_list_of_set.idem_if_sorted_distinct [of ?xs] by simp
qed

lemma load_knowledge_example:
  "load_knowledge (TRAINING_DOCS_DIR example_server) =
     ''--- a.txt ---'' @ [LF] @ ''X'' @ [LF, LF] @ ''--- b.txt ---'' @ [LF] @ ''Y''"
  by (simp add: example_server_def load_knowledge_def sorted_paths_def read_text_def
      universal_newlines_def)

text \<open>
  C3. For every knowledge directory (its entries having distinct names),
  \<open>load_knowledge\<close> returns what the specification's contract \<open>build_context\<close>
  describes: one block \<open>--- {name} ---\<close>, newline, content for each readable regular
  file, the blocks in the sorted order of the file names and joined by a blank line;
  sub-directories and unreadable files contribute nothing.
\<close>

theorem load_knowledge_is_build_context:
  assumes "distinct (map fst dir)"
  shows "load_knowledge dir = build_context dir"
proof -
  have "\<forall>(n, nd) \<in> set (sort_key fst dir). map_of dir n = Some nd"
    using assms by (auto intro: map_of_is_SomeI)
  then show ?thesis
    by (simp add: load_knowledge_def build_context_def sorted_paths_def
        load_knowledge_loop_blocks [where dir = dir] sorted_readable_names [OF assms])
qed

theorem load_knowledge_is_build_context_witness:
  "build_context (TRAINING_DOCS_DIR example_server) =
     ''--- a.txt ---'' @ [LF] @ ''X'' @ [LF, LF] @ ''--- b.txt ---'' @ [LF] @ ''Y''"
proof -
  have d: "distinct (map fst (TRAINING_DOCS_DIR example_server))"
    by (simp add: example_server_def)
  show ?thesis
    unfolding load_knowledge_is_build_context [OF d, symmetric]
    by (rule load_knowledge_example)
qed

subsection \<open>The listing of session logs\<close>

lemma set_sorted_paths_reverse: "set (sorted_paths_reverse xs) = set xs"
  by (simp add: sorted_paths_reverse_def)

lemma sorted_paths_reverse_descending:
  assumes "distinct (map fst xs)"
  shows "distinct (map fst (sorted_paths_reverse xs))"
    and "sorted_wrt (\<lambda>a b. fst b < fst a) (sorted_paths_reverse xs)"
proof -
  let ?ys = "sort_key fst (rev xs)"
  have d: "distinct (map fst ?ys)" using assms by (simp add: distinct_map)
  then show "distinct (map fst (sorted_paths_reverse xs))"
    by (simp add: sorted_paths_reverse_def rev_map [symmetric])
  have "sorted (map fst ?ys)" by (rule sorted_sort_key)
  with d have "sorted_wrt (<) (map fst ?ys)" by (simp add: strict_sorted_iff)
  then have "sorted_wrt (\<lambda>a b. fst a < fst b) ?ys" by (simp add: sorted_wrt_map)
  then show "sorted_wrt (\<lambda>a b. fst b < fst a) (sorted_paths_reverse xs)"
    by (simp add: sorted_paths_reverse_def sorted_wrt_rev)
qed

text \<open>
  C4, as the code has it. For a caller with the admin flag, \<open>list_sessions\<close> returns one
  summary for each entry of the sessions directory whose name ends in \<open>.csv\<close>, in
  strictly descending order of the file names. The modification times are reported in
  the summaries and play no part in the order.
\<close>

theorem list_sessions_by_name:
  assumes "is_admin c" and "distinct (map fst (SESSIONS_DIR st))"
  shows "\<exists>logs. list_sessions e (c, st) = ((200, Sessions (map (summary_of e) logs)), c, st) \<and>
           set logs = {nf \<in> set (SESSIONS_DIR st). suffix ''.csv'' (fst nf)} \<and>
           distinct (map fst logs) \<and>
           sorted_wrt (\<lambda>a b. fst b < fst a) logs"
proof -
  let ?logs = "sorted_paths_reverse (glob_csv (SESSIONS_DIR st))"
  have d: "distinct (map fst (glob_csv (SESSIONS_DIR st)))"
    using assms(2) by (simp add: glob_csv_def distinct_map_filter)
  have "list_sessions e (c, st) = ((200, Sessions (map (summary_of e) ?logs)), c, st)"
    using assms(1) by (simp add: list_sessions_def require_admin_def)
  moreover have "set ?logs = {nf \<in> set (SESSIONS_DIR st). suffix ''.csv'' (fst nf)}"
    by (auto simp: set_sorted_paths_reverse glob_csv_def)
  ultimately show ?thesis
    using sorted_paths_reverse_descending [OF d] by blast
qed

theorem list_sessions_by_name_witness:
  "\<exists>logs. list_sessions example_env (admin, example_server) =
            ((200, Sessions (map (summary_of example_env) logs)), admin, example_server) \<and>
          set logs = {nf \<in> set (SESSIONS_DIR example_server). suffix ''.csv'' (fst nf)} \<and>
          distinct (map fst logs) \<and>
          sorted_wrt (\<lambda>a b. fst b < fst a) logs"
proof (rule list_sessions_by_name)
  show "is_admin admin" by (simp add: admin_def)
  show "distinct (map fst (SESSIONS_DIR example_server))" by (simp add: example_server_def)
qed

text \<open>
  C4, as the claim states it, fails: of two logs, the one modified last (at 10, against
  5) is listed second, because its name is the smaller one.
\<close>

theorem list_sessions_counterexample:
  "list_sessions example_env (admin, example_server) =
     ((200, Sessions [\<lparr>session_id = ''bbbbbbbbbbbb'', message_count = 1, modified = ''5''\<rparr>,
                      \<lparr>session_id = ''aaaaaaaaaaaa'', message_count = 1, modified = ''10''\<rparr>]),
      admin, example_server) \<and>
   \<not> most_recent_first (sorted_paths_reverse (glob_csv (SESSIONS_DIR example_server)))"
  by (simp add: list_sessions_def require_admin_def admin_def example_server_def example_env_def
      sorted_paths_reverse_def glob_csv_def summary_of_def stem_def most_recent_first_def
      suffix_to_prefix count_lines_def universal_newlines_def writerow_def csv_field_def
      str_nat.simps digit_def)

subsection \<open>Documents\<close>





text \<open>A document that the process may not write: the request fails and nothing changes.\<close>

lemma update_file_not_writable:
  assumes "is_admin c"
    and "lookup_path (TRAINING_DOCS_DIR st) (secure_filename e filename) = Some (File f)"
    and "\<not> writable f"
  shows "update_file e filename content' (c, st) = ((500, Uncaught ''PermissionError''), c, st)"
  using assms by (simp add: update_file_def require_admin_def write_text_def)




text \<open>
  C6 fails on the code. \<open>upload_file\<close> never consults \<open>ALLOWED_EXT\<close>: a file named
  \<open>evil.exe\<close>, which ends in none of the accepted extensions, is stored in the knowledge
  directory and reported as uploaded.
\<close>

theorem upload_file_ignores_ALLOWED_EXT:
  "upload_file example_env [(''evil.exe'', ''MZ'')] (admin, example_server) =
     ((200, Uploaded [''evil.exe'']), admin,
      example_server\<lparr>TRAINING_DOCS_DIR :=
        TRAINING_DOCS_DIR example_server @
        [(''evil.exe'', File \<lparr>data = ''MZ'', readable = True, writable = True\<rparr>)]\<rparr>) \<and>
   \<not> has_allowed_extension ''evil.exe''"
  by (simp add: upload_file_def require_admin_def admin_def example_server_def
      example_env_def lookup_path_def has_allowed_extension_def ALLOWED_EXT_def suffix_to_prefix
      werkzeug_secure_filename_def filename_char_def isspace_def)

end
